theory Spec2Isabelle
  imports Main
begin

section \<open>JavaScript values used by table.js\<close>

text \<open>
  An exception thrown by the code or by one of the helpers it calls. A function that may
  throw returns \<open>js_error + 'a\<close>, with \<open>Inl\<close> for the exception.
\<close>

datatype js_error = Error string

text \<open>
  \<^verbatim>\<open>Array.prototype.map\<close> with a callback that may throw: the elements are visited in
  order and the first exception leaves the loop.
\<close>

fun array_map :: "('a \<Rightarrow> js_error + 'b) \<Rightarrow> 'a list \<Rightarrow> js_error + 'b list" where
  "array_map f [] = Inr []"
| "array_map f (x # xs) =
     (case f x of
        Inl e \<Rightarrow> Inl e
      | Inr y \<Rightarrow> (case array_map f xs of Inl e \<Rightarrow> Inl e | Inr ys \<Rightarrow> Inr (y # ys)))"

text \<open>
  Truthiness, as \<^verbatim>\<open>if (v)\<close> and \<^verbatim>\<open>a || b\<close> test it. An absent property is
  \<^verbatim>\<open>undefined\<close> (\<open>None\<close>); the empty string and the number 0 are falsy as well.
\<close>

definition truthy_string :: "string option \<Rightarrow> bool" where
  "truthy_string s = (case s of None \<Rightarrow> False | Some v \<Rightarrow> v \<noteq> [])"

definition truthy_number :: "int option \<Rightarrow> bool" where
  "truthy_number n = (case n of None \<Rightarrow> False | Some v \<Rightarrow> v \<noteq> 0)"

section \<open>getRows: the request\<close>

text \<open>One element of \<^verbatim>\<open>options.ranges\<close>: \<^verbatim>\<open>{start: ..., end: ...}\<close>.\<close>

record key_range =
  range_start :: "string option"
  range_end :: "string option"

text \<open>
  The \<^verbatim>\<open>options\<close> argument of \<^verbatim>\<open>getRows\<close>. Every property is optional; keys are
  strings. \<open>'flt\<close> is the caller's filter description.
\<close>

record 'flt get_rows_options =
  opt_decode :: "bool option"
  opt_keys :: "string list option"
  opt_start :: "string option"
  opt_end :: "string option"
  opt_ranges :: "key_range list option"
  opt_filter :: "'flt option"
  opt_interleave :: "bool option"
  opt_limit :: "int option"

text \<open>\<^verbatim>\<open>reqOpts.rows\<close>: the row keys and the row ranges, each present only when assigned.\<close>

record ('b, 'r) row_set =
  rowKeys :: "'b list option"
  rowRanges :: "'r list option"

text \<open>\<^verbatim>\<open>reqOpts\<close> of \<^verbatim>\<open>getRows\<close>, handed to \<^verbatim>\<open>requestStream\<close>.\<close>

record ('b, 'r, 'f) read_rows_request =
  tableName :: string
  objectMode :: bool
  rows :: "('b, 'r) row_set option"
  filter_expr :: "'f option"
  numRowsLimit :: "int option"

text \<open>
  \<^verbatim>\<open>options.ranges = options.ranges || []\<close>, followed by the push of the shorthand range
  under \<^verbatim>\<open>if (options.start || options.end)\<close>. The push is made on the array of the
  options; the result here is the array as it stands after it.
\<close>

definition getRows_ranges :: "'flt get_rows_options \<Rightarrow> key_range list" where
  "getRows_ranges options =
     (let ranges = (case opt_ranges options of None \<Rightarrow> [] | Some rs \<Rightarrow> rs)
      in if truthy_string (opt_start options) \<or> truthy_string (opt_end options)
         then ranges @ [\<lparr>range_start = opt_start options, range_end = opt_end options\<rparr>]
         else ranges)"

text \<open>
  The block under \<^verbatim>\<open>if (options.keys || options.ranges.length)\<close>. An array is truthy even
  when it is empty, so \<^verbatim>\<open>options.keys\<close> counts as soon as it is given.
  \<open>convertToBytes\<close> stands for \<^verbatim>\<open>Mutation.convertToBytes\<close> and \<open>createRange\<close> for
  \<^verbatim>\<open>Filter.createRange\<close>; both live outside table.js and are parameters here.
\<close>

definition getRows_rows ::
  "(string \<Rightarrow> js_error + 'b) \<Rightarrow> (string option \<Rightarrow> string option \<Rightarrow> string \<Rightarrow> js_error + 'r) \<Rightarrow>
   string list option \<Rightarrow> key_range list \<Rightarrow> js_error + ('b, 'r) row_set option" where
  "getRows_rows convertToBytes createRange keys ranges =
     (if keys \<noteq> None \<or> length ranges \<noteq> 0 then
        (case (case keys of
                 None \<Rightarrow> Inr None
               | Some ks \<Rightarrow> map_sum id Some (array_map convertToBytes ks)) of
           Inl e \<Rightarrow> Inl e
         | Inr rk \<Rightarrow>
             (case (if length ranges \<noteq> 0
                    then map_sum id Some
                           (array_map (\<lambda>range. createRange (range_start range) (range_end range) ''Key'')
                              ranges)
                    else Inr None) of
                Inl e \<Rightarrow> Inl e
              | Inr rr \<Rightarrow> Inr (Some \<lparr>rowKeys = rk, rowRanges = rr\<rparr>)))
      else Inr None)"

text \<open>
  The construction of \<^verbatim>\<open>reqOpts\<close> in \<^verbatim>\<open>getRows\<close>, up to the call of
  \<^verbatim>\<open>requestStream\<close>. \<open>parse\<close> stands for \<^verbatim>\<open>Filter.parse\<close>; \<open>table_id\<close> is \<^verbatim>\<open>this.id\<close>.
  An exception of a helper leaves \<^verbatim>\<open>getRows\<close> before any request is made.
\<close>

definition getRows_reqOpts ::
  "(string \<Rightarrow> js_error + 'b) \<Rightarrow> (string option \<Rightarrow> string option \<Rightarrow> string \<Rightarrow> js_error + 'r) \<Rightarrow>
   ('flt \<Rightarrow> js_error + 'f) \<Rightarrow> string \<Rightarrow> 'flt get_rows_options \<Rightarrow>
   js_error + ('b, 'r, 'f) read_rows_request" where
  "getRows_reqOpts convertToBytes createRange parse table_id options =
     (case getRows_rows convertToBytes createRange (opt_keys options) (getRows_ranges options) of
        Inl e \<Rightarrow> Inl e
      | Inr rws \<Rightarrow>
          (case (case opt_filter options of
                   None \<Rightarrow> Inr None
                 | Some flt \<Rightarrow> map_sum id Some (parse flt)) of
             Inl e \<Rightarrow> Inl e
           | Inr f \<Rightarrow>
               Inr \<lparr>tableName = table_id, objectMode = True, rows = rws, filter_expr = f,
                    numRowsLimit = (if truthy_number (opt_limit options)
                                    then opt_limit options else None)\<rparr>))"

section \<open>Streams\<close>

text \<open>
  \<^verbatim>\<open>grpcOpts\<close>: the service and the method passed to \<^verbatim>\<open>requestStream\<close>.
\<close>

record grpc_opts =
  service :: string
  grpc_method :: string

text \<open>
  What the stream of \<^verbatim>\<open>requestStream\<close> does once it is open is given from outside: it
  delivers a list of messages to the \<^verbatim>\<open>through.obj\<close> transform, one after the other, and
  then stops, either normally or with an error.
\<close>

datatype 'err stream_end = Ended | Failed 'err

text \<open>
  One invocation of the caller's callback: \<^verbatim>\<open>callback(err)\<close>, from
  \<^verbatim>\<open>stream.on('error', callback)\<close>, or \<^verbatim>\<open>callback(null, items)\<close>, from the
  \<^verbatim>\<open>concat\<close> sink that collects everything pushed by the transform.
\<close>

datatype ('a, 'err) callback_call = Callback_error 'err | Callback_result "'a list"

text \<open>What a call hands back: the pipeline stream, an EventEmitter, or nothing.\<close>

datatype returned = Returns_stream | Returns_emitter | Returns_undefined

section \<open>getRows: the pipeline\<close>






text \<open>
  The synchronous part of \<^verbatim>\<open>getRows\<close>: the request handed to \<^verbatim>\<open>requestStream\<close> and
  the value returned to the caller. \<open>has_callback\<close> is \<^verbatim>\<open>is.function(callback)\<close>.
\<close>

definition getRows ::
  "(string \<Rightarrow> js_error + 'b) \<Rightarrow> (string option \<Rightarrow> string option \<Rightarrow> string \<Rightarrow> js_error + 'r) \<Rightarrow>
   ('flt \<Rightarrow> js_error + 'f) \<Rightarrow> string \<Rightarrow> 'flt get_rows_options \<Rightarrow> bool \<Rightarrow>
   js_error + (grpc_opts \<times> ('b, 'r, 'f) read_rows_request) \<times> returned" where
  "getRows convertToBytes createRange parse table_id options has_callback =
     (case getRows_reqOpts convertToBytes createRange parse table_id options of
        Inl e \<Rightarrow> Inl e
      | Inr reqOpts \<Rightarrow>
          Inr ((\<lparr>service = ''Bigtable'', grpc_method = ''readRows''\<rparr>, reqOpts),
               if \<not> has_callback then Returns_stream else Returns_undefined))"


section \<open>mutate and insert\<close>

text \<open>
  Entry objects live in a store, so that two names for one object are told from two equal
  objects: a reference is an address, and the store gives the object at each address.
\<close>

type_synonym ref = nat

text \<open>
  Modelled from the spec: \<^verbatim>\<open>Mutation.methods\<close> is declared in mutation.js, which is not
  part of the sources; the spec gives the method of an entry as insert or delete.
\<close>

datatype mutation_method = INSERT | DELETE

record 'd entry_obj =
  key :: string
  entry_method :: "mutation_method option"
  data :: "'d option"

type_synonym 'd heap = "ref \<Rightarrow> 'd entry_obj"

text \<open>
  The \<^verbatim>\<open>entries\<close> argument of \<^verbatim>\<open>mutate\<close>: nothing, one entry object, or an array whose
  elements are again such values.
\<close>

datatype jsv = Undefined | Entry ref | Array "jsv list"

text \<open>\<^verbatim>\<open>arrify\<close>: an array is kept, null and undefined give [], anything else is wrapped.\<close>

fun arrify :: "jsv \<Rightarrow> jsv list" where
  "arrify Undefined = []"
| "arrify (Array xs) = xs"
| "arrify (Entry r) = [Entry r]"

text \<open>\<^verbatim>\<open>lodash.flatten\<close>: a new array, one level of nesting removed.\<close>

fun flatten :: "jsv list \<Rightarrow> jsv list" where
  "flatten [] = []"
| "flatten (Array ys # xs) = ys @ flatten xs"
| "flatten (x # xs) = x # flatten xs"

text \<open>\<^verbatim>\<open>entries[i]\<close>: undefined outside the array.\<close>

definition js_index :: "jsv list \<Rightarrow> int \<Rightarrow> jsv" where
  "js_index xs i = (if 0 \<le> i \<and> i < int (length xs) then xs ! nat i else Undefined)"

text \<open>One element of \<^verbatim>\<open>data.entries\<close> in a response of mutateRows.\<close>

record grpc_status =
  code :: int
  message :: string

record status_entry =
  index :: int
  status :: grpc_status

text \<open>
  The object built for a failed entry: the result of
  \<^verbatim>\<open>common.GrpcService.decorateStatus_\<close> with its \<^verbatim>\<open>entry\<close> property assigned.
\<close>

record 'ds mutation_result =
  decorated :: 'ds
  entry :: jsv

text \<open>The argument of an error event: a decorated status or an error of the stream.\<close>

datatype ('ds, 'err) error_payload = Status "'ds mutation_result" | Stream_error 'err

text \<open>
  An \<^verbatim>\<open>emitter.emit\<close>: \<^verbatim>\<open>emit('error', x)\<close> or \<^verbatim>\<open>emit('complete')\<close>. An emit is
  recorded as such, whichever listeners the caller has attached.
\<close>

datatype ('ds, 'err) emitter_event = Error_event "('ds, 'err) error_payload" | Complete_event

text \<open>
  What the pipeline of \<^verbatim>\<open>mutate\<close> has done so far: the events emitted on the emitter and
  the objects pushed downstream by the transform.
\<close>

record ('ds, 'err) mutate_state =
  emitted :: "('ds, 'err) emitter_event list"
  pushed :: "'ds mutation_result list"

text \<open>
  \<^verbatim>\<open>data.entries.forEach(...)\<close> in the transform of \<^verbatim>\<open>mutate\<close>. \<open>decorateStatus\<close>
  stands for \<^verbatim>\<open>common.GrpcService.decorateStatus_\<close>; \<open>entries\<close> is the flattened array the
  closure holds.
\<close>

fun mutate_forEach ::
  "bool \<Rightarrow> (grpc_status \<Rightarrow> 'ds) \<Rightarrow> jsv list \<Rightarrow> status_entry list \<Rightarrow>
   ('ds, 'err) mutate_state \<Rightarrow> ('ds, 'err) mutate_state" where
  "mutate_forEach isCallbackMode decorateStatus entries [] st = st"
| "mutate_forEach isCallbackMode decorateStatus entries (e # rest) st =
     mutate_forEach isCallbackMode decorateStatus entries rest
       (if code (status e) = 0 then st
        else (let s = \<lparr>decorated = decorateStatus (status e),
                       entry = js_index entries (index e)\<rparr>
              in if \<not> isCallbackMode
                 then st\<lparr>emitted := emitted st @ [Error_event (Status s)]\<rparr>
                 else st\<lparr>pushed := pushed st @ [s]\<rparr>))"

text \<open>The transform run over the messages of the stream, in order.\<close>

fun mutate_transform ::
  "bool \<Rightarrow> (grpc_status \<Rightarrow> 'ds) \<Rightarrow> jsv list \<Rightarrow> status_entry list list \<Rightarrow>
   ('ds, 'err) mutate_state \<Rightarrow> ('ds, 'err) mutate_state" where
  "mutate_transform isCallbackMode decorateStatus entries [] st = st"
| "mutate_transform isCallbackMode decorateStatus entries (data_entries # msgs) st =
     mutate_transform isCallbackMode decorateStatus entries msgs
       (mutate_forEach isCallbackMode decorateStatus entries data_entries st)"

text \<open>\<^verbatim>\<open>reqOpts\<close> of \<^verbatim>\<open>mutate\<close>.\<close>

record 'w mutate_rows_request =
  mutate_objectMode :: bool
  mutate_tableName :: string
  mutate_entries :: "'w list"

text \<open>
  What the synchronous part of \<^verbatim>\<open>mutate\<close> leaves behind: the store, the flattened
  \<^verbatim>\<open>entries\<close> and the mode held by the closure, the request handed to
  \<^verbatim>\<open>requestStream\<close>, and the value returned.
\<close>

record ('d, 'w) mutate_call =
  call_heap :: "'d heap"
  call_entries :: "jsv list"
  call_isCallbackMode :: bool
  call_request :: "grpc_opts \<times> 'w mutate_rows_request"
  call_returned :: returned

text \<open>
  \<^verbatim>\<open>Table.prototype.mutate\<close> up to its return. \<open>parse\<close> stands for
  \<^verbatim>\<open>Mutation.parse\<close>, which reads the entry in the store; when it throws, the exception
  leaves \<^verbatim>\<open>mutate\<close> before \<^verbatim>\<open>requestStream\<close> is called. \<open>has_callback\<close> is
  \<^verbatim>\<open>is.function(callback)\<close>.
\<close>

definition mutate ::
  "('d heap \<Rightarrow> jsv \<Rightarrow> js_error + 'w) \<Rightarrow> string \<Rightarrow> 'd heap \<Rightarrow> jsv \<Rightarrow> bool \<Rightarrow>
   js_error + ('d, 'w) mutate_call" where
  "mutate parse table_id h entries_arg has_callback =
     (let entries = flatten (arrify entries_arg)
      in case array_map (parse h) entries of
           Inl e \<Rightarrow> Inl e
         | Inr encoded \<Rightarrow>
             Inr \<lparr>call_heap = h,
                  call_entries = entries,
                  call_isCallbackMode = has_callback,
                  call_request =
                    (\<lparr>service = ''Bigtable'', grpc_method = ''mutateRows''\<rparr>,
                     \<lparr>mutate_objectMode = True, mutate_tableName = table_id,
                      mutate_entries = encoded\<rparr>),
                  call_returned = (if \<not> has_callback then Returns_emitter
                                   else Returns_undefined)\<rparr>)"

text \<open>
  What the caller observes of one run of the stream of a \<^verbatim>\<open>mutate\<close> call: the events of
  the emitter and the invocations of the callback.
\<close>

record ('ds, 'err) mutate_observed =
  events :: "('ds, 'err) emitter_event list"
  callback_calls :: "('ds mutation_result, 'err) callback_call list"

text \<open>
  The handlers \<^verbatim>\<open>mutate\<close> installs, run over the messages and the end of the stream.
  Without a callback, an error of the stream and its finish are emitted on the emitter;
  with one, the error goes to the callback and the end to the \<^verbatim>\<open>concat\<close> sink.
\<close>

definition mutate_run ::
  "(grpc_status \<Rightarrow> 'ds) \<Rightarrow> ('d, 'w) mutate_call \<Rightarrow> status_entry list list \<Rightarrow>
   'err stream_end \<Rightarrow> ('ds, 'err) mutate_observed" where
  "mutate_run decorateStatus call msgs fin =
     (let st = mutate_transform (call_isCallbackMode call) decorateStatus (call_entries call)
                 msgs \<lparr>emitted = [], pushed = []\<rparr>
      in if \<not> call_isCallbackMode call
         then \<lparr>events = emitted st @
                          [case fin of
                             Failed err \<Rightarrow> Error_event (Stream_error err)
                           | Ended \<Rightarrow> Complete_event],
               callback_calls = []\<rparr>
         else \<lparr>events = emitted st,
               callback_calls =
                 [case fin of
                    Failed err \<Rightarrow> Callback_error err
                  | Ended \<Rightarrow> Callback_result (pushed st)]\<rparr>)"

text \<open>
  The \<^verbatim>\<open>entries\<close> argument of \<^verbatim>\<open>insert\<close>, as its documentation types it: one entry
  object or an array of entry objects.
\<close>

datatype insert_entries = One ref | Many "ref list"

fun arrify_insert :: "insert_entries \<Rightarrow> ref list" where
  "arrify_insert (One r) = [r]"
| "arrify_insert (Many rs) = rs"

text \<open>
  \<^verbatim>\<open>propAssign('method', Mutation.methods.INSERT)\<close>, applied to one object: the property is
  assigned on the object itself, and the same object is returned.
\<close>

definition propAssign_method :: "'d heap \<Rightarrow> ref \<Rightarrow> 'd heap \<times> ref" where
  "propAssign_method h r = (h(r := (h r)\<lparr>entry_method := Some INSERT\<rparr>), r)"

text \<open>\<^verbatim>\<open>arrify(entries).map(propAssign(...))\<close>: the objects are visited in order.\<close>

fun insert_map :: "'d heap \<Rightarrow> ref list \<Rightarrow> 'd heap \<times> ref list" where
  "insert_map h [] = (h, [])"
| "insert_map h (r # rs) =
     (let (h1, r1) = propAssign_method h r;
          (h2, rs2) = insert_map h1 rs
      in (h2, r1 # rs2))"

text \<open>\<^verbatim>\<open>Table.prototype.insert\<close>.\<close>

definition insert_entries_call ::
  "('d heap \<Rightarrow> jsv \<Rightarrow> js_error + 'w) \<Rightarrow> string \<Rightarrow> 'd heap \<Rightarrow> insert_entries \<Rightarrow> bool \<Rightarrow>
   js_error + ('d, 'w) mutate_call" where
  "insert_entries_call parse table_id h entries_arg has_callback =
     (let (h', entries) = insert_map h (arrify_insert entries_arg)
      in mutate parse table_id h' (Array (map Entry entries)) has_callback)"

text \<open>
  The reading of \<^verbatim>\<open>insert\<close> in the specification, to be compared with
  \<open>insert_entries_call\<close>: \<^verbatim>\<open>insert(entries, callback)\<close> is \<^verbatim>\<open>mutate\<close> applied to the
  arrified input in which every entry has its method set to insert. \<open>pre_tagged h rs\<close> is
  the store in which exactly the objects of \<open>rs\<close> carry that method.
\<close>

definition pre_tagged :: "'d heap \<Rightarrow> ref list \<Rightarrow> 'd heap" where
  "pre_tagged h rs = (\<lambda>r. if r \<in> set rs then (h r)\<lparr>entry_method := Some INSERT\<rparr> else h r)"

definition mutate_pre_tagged ::
  "('d heap \<Rightarrow> jsv \<Rightarrow> js_error + 'w) \<Rightarrow> string \<Rightarrow> 'd heap \<Rightarrow> insert_entries \<Rightarrow> bool \<Rightarrow>
   js_error + ('d, 'w) mutate_call" where
  "mutate_pre_tagged parse table_id h entries_arg has_callback =
     mutate parse table_id (pre_tagged h (arrify_insert entries_arg))
       (Array (map Entry (arrify_insert entries_arg))) has_callback"

section \<open>Facts about the loops\<close>

lemma array_map_nth:
  "array_map f xs = Inr ys \<Longrightarrow> length ys = length xs \<and> (\<forall>i<length xs. f (xs ! i) = Inr (ys ! i))"
proof (induction xs arbitrary: ys)
  case Nil
  then show ?case by simp
next
  case (Cons x xs)
  then obtain y ys' where fx: "f x = Inr y" and rest: "array_map f xs = Inr ys'" and ys: "ys = y # ys'"
    by (auto split: sum.splits)
  from Cons.IH [OF rest] have len: "length ys' = length xs"
    and nth: "\<forall>i<length xs. f (xs ! i) = Inr (ys' ! i)" by simp_all
  show ?case
  proof (intro conjI allI impI)
    show "length ys = length (x # xs)" using len ys by simp
  next
    fix i assume "i < length (x # xs)"
    then show "f ((x # xs) ! i) = Inr (ys ! i)"
      using fx nth ys by (cases i) simp_all
  qed
qed

lemma array_map_total:
  "(\<forall>x\<in>set xs. \<exists>y. f x = Inr y) \<Longrightarrow> \<exists>ys. array_map f xs = Inr ys"
  by (induction xs) (auto split: sum.splits)

lemma array_map_thrown:
  "array_map f xs = Inl e \<Longrightarrow> \<exists>x\<in>set xs. f x = Inl e"
  by (induction xs) (auto split: sum.splits)

lemma mutate_forEach_eq:
  "mutate_forEach cbm dec ents des st =
     (if cbm
      then st\<lparr>pushed := pushed st @
             map (\<lambda>e. \<lparr>decorated = dec (status e), entry = js_index ents (index e)\<rparr>)
               (filter (\<lambda>e. code (status e) \<noteq> 0) des)\<rparr>
      else st\<lparr>emitted := emitted st @
             map (\<lambda>e. Error_event (Status \<lparr>decorated = dec (status e), entry = js_index ents (index e)\<rparr>))
               (filter (\<lambda>e. code (status e) \<noteq> 0) des)\<rparr>)"
  by (induction des arbitrary: st) (simp_all add: Let_def)

lemma mutate_transform_eq:
  "mutate_transform cbm dec ents msgs st =
     (if cbm
      then st\<lparr>pushed := pushed st @
             map (\<lambda>e. \<lparr>decorated = dec (status e), entry = js_index ents (index e)\<rparr>)
               (filter (\<lambda>e. code (status e) \<noteq> 0) (concat msgs))\<rparr>
      else st\<lparr>emitted := emitted st @
             map (\<lambda>e. Error_event (Status \<lparr>decorated = dec (status e), entry = js_index ents (index e)\<rparr>))
               (filter (\<lambda>e. code (status e) \<noteq> 0) (concat msgs))\<rparr>)"
  by (induction msgs arbitrary: st) (simp_all add: mutate_forEach_eq)

lemma flatten_eq:
  "flatten xs = concat (map (\<lambda>v. case v of Array ys \<Rightarrow> ys | _ \<Rightarrow> [v]) xs)"
  by (induction xs rule: flatten.induct) simp_all

lemma flatten_map_Entry: "flatten (map Entry rs) = map Entry rs"
  by (induction rs) simp_all

lemma flatten_replicate_Entry: "flatten (replicate n (Entry r)) = replicate n (Entry r)"
  using flatten_map_Entry [of "replicate n r"] by simp

lemma mutate_forEach_append:
  "mutate_forEach cbm dec ents (xs @ ys) st =
     mutate_forEach cbm dec ents ys (mutate_forEach cbm dec ents xs st)"
  by (induction xs arbitrary: st) simp_all

lemma mutate_Inr_fields:
  assumes "mutate parse table_id h entries_arg has_callback = Inr call"
  shows "call_entries call = flatten (arrify entries_arg)"
    and "call_isCallbackMode call = has_callback"
    and "call_returned call = (if \<not> has_callback then Returns_emitter else Returns_undefined)"
  using assms by (auto simp: mutate_def Let_def split: sum.splits)

lemma mutate_throws_only_from_parse:
  "mutate parse table_id h entries_arg has_callback = Inl e \<Longrightarrow>
   \<exists>v\<in>set (flatten (arrify entries_arg)). parse h v = Inl e"
  using array_map_thrown [of "parse h" "flatten (arrify entries_arg)" e]
  by (auto simp: mutate_def Let_def split: sum.splits)

lemma insert_map_eq: "insert_map h rs = (pre_tagged h rs, rs)"
proof (induction rs arbitrary: h)
  case Nil
  then show ?case by (simp add: pre_tagged_def)
next
  case (Cons a rs)
  show ?case
    by (simp add: Cons.IH propAssign_method_def pre_tagged_def fun_eq_iff)
qed





lemma array_map_Inr: "array_map (\<lambda>x. Inr x) xs = Inr xs"
  by (induction xs) simp_all

lemma map_sum_Some_Inr: "map_sum id Some x = Inr y \<longleftrightarrow> (\<exists>v. x = Inr v \<and> y = Some v)"
  by (cases x) auto

lemma getRows_Inr_rows:
  assumes "getRows convertToBytes createRange parse table_id options has_callback =
             Inr ((grpcOpts, reqOpts), ret)"
  shows "getRows_rows convertToBytes createRange (opt_keys options) (getRows_ranges options) =
           Inr (rows reqOpts)"
  using assms by (auto simp: getRows_def getRows_reqOpts_def split: sum.splits)

lemma getRows_rows_ranges:
  assumes "getRows_rows convertToBytes createRange keys ranges = Inr rws"
  shows "array_map (\<lambda>range. createRange (range_start range) (range_end range) ''Key'') ranges =
           Inr (case rws of None \<Rightarrow> []
                | Some rs \<Rightarrow> (case rowRanges rs of None \<Rightarrow> [] | Some xs \<Rightarrow> xs))"
    and "ranges \<noteq> [] \<Longrightarrow> \<exists>rs xs. rws = Some rs \<and> rowRanges rs = Some xs"
  using assms
  by (auto simp: getRows_rows_def map_sum_Some_Inr split: sum.splits option.splits if_splits)

section \<open>getRows: the request that is built\<close>

text \<open>
  C10. When \<^verbatim>\<open>options.limit\<close> is 0, \<^verbatim>\<open>getRows\<close> does exactly what it does with no
  limit at all, and the request it builds has no \<^verbatim>\<open>numRowsLimit\<close>: the limit is tested
  for truthiness, and 0 is falsy.
\<close>

theorem getRows_limit_zero_unlimited:
  assumes "opt_limit options = Some 0"
  shows "getRows convertToBytes createRange parse table_id options has_callback =
           getRows convertToBytes createRange parse table_id (options\<lparr>opt_limit := None\<rparr>) has_callback
         \<and> (\<forall>grpcOpts reqOpts ret.
               getRows convertToBytes createRange parse table_id options has_callback =
                 Inr ((grpcOpts, reqOpts), ret) \<longrightarrow> numRowsLimit reqOpts = None)"
proof -
  have ranges: "getRows_ranges (options\<lparr>opt_limit := None\<rparr>) = getRows_ranges options"
    by (simp add: getRows_ranges_def Let_def)
  have req: "getRows_reqOpts convertToBytes createRange parse table_id (options\<lparr>opt_limit := None\<rparr>) =
             getRows_reqOpts convertToBytes createRange parse table_id options"
    using assms by (simp add: getRows_reqOpts_def ranges truthy_number_def split: sum.splits)
  have none: "numRowsLimit reqOpts = None"
    if "getRows_reqOpts convertToBytes createRange parse table_id options = Inr reqOpts" for reqOpts
    using that assms by (auto simp: getRows_reqOpts_def truthy_number_def split: sum.splits)
  show ?thesis
    using none by (auto simp: getRows_def req split: sum.splits)
qed

theorem getRows_limit_zero_unlimited_witness:
  "opt_limit \<lparr>opt_decode = None, opt_keys = Some [''a''], opt_start = None, opt_end = None,
              opt_ranges = None, opt_filter = (None :: nat option), opt_interleave = None,
              opt_limit = Some 0\<rparr> = Some 0
   \<and> getRows Inr (\<lambda>s e k. Inr (s, e)) Inr ''t''
        \<lparr>opt_decode = None, opt_keys = Some [''a''], opt_start = None, opt_end = None,
         opt_ranges = None, opt_filter = (None :: nat option), opt_interleave = None,
         opt_limit = Some 0\<rparr> True
      = Inr ((\<lparr>service = ''Bigtable'', grpc_method = ''readRows''\<rparr>,
              \<lparr>tableName = ''t'', objectMode = True,
               rows = Some \<lparr>rowKeys = Some [''a''],
                            rowRanges = (None :: (string option \<times> string option) list option)\<rparr>,
               filter_expr = (None :: nat option), numRowsLimit = None\<rparr>), Returns_undefined)"
  using getRows_limit_zero_unlimited
    [of "\<lparr>opt_decode = None, opt_keys = Some [''a''], opt_start = None, opt_end = None,
         opt_ranges = None, opt_filter = (None :: nat option), opt_interleave = None,
         opt_limit = Some 0\<rparr>" "Inr :: string \<Rightarrow> js_error + string"
        "\<lambda>s e k. Inr (s, e)" "Inr :: nat \<Rightarrow> js_error + nat" "''t''" True]
  by (simp add: getRows_def getRows_reqOpts_def getRows_rows_def getRows_ranges_def
        truthy_number_def truthy_string_def)

text \<open>
  C6, as stated, for a \<^verbatim>\<open>start\<close> that is present but empty:
  \<^verbatim>\<open>getRows({start: '', ranges: [{start: 'a', end: 'c'}]})\<close> sends the one explicit range
  and nothing else. The test is \<^verbatim>\<open>options.start || options.end\<close>, and the empty
  string is falsy, so nothing is pushed: the row-range list has length 1, not 2.
\<close>

theorem getRows_shorthand_present_counterexample:
  "opt_start \<lparr>opt_decode = None, opt_keys = None, opt_start = Some [], opt_end = None,
              opt_ranges = Some [\<lparr>range_start = Some ''a'', range_end = Some ''c''\<rparr>],
              opt_filter = (None :: nat option), opt_interleave = None, opt_limit = None\<rparr> \<noteq> None
   \<and> getRows (Inr :: string \<Rightarrow> js_error + string) (\<lambda>s e k. Inr (s, e))
        (Inr :: nat \<Rightarrow> js_error + nat) ''t''
        \<lparr>opt_decode = None, opt_keys = None, opt_start = Some [], opt_end = None,
         opt_ranges = Some [\<lparr>range_start = Some ''a'', range_end = Some ''c''\<rparr>],
         opt_filter = None, opt_interleave = None, opt_limit = None\<rparr> False
      = Inr ((\<lparr>service = ''Bigtable'', grpc_method = ''readRows''\<rparr>,
              \<lparr>tableName = ''t'', objectMode = True,
               rows = Some \<lparr>rowKeys = None, rowRanges = Some [(Some ''a'', Some ''c'')]\<rparr>,
               filter_expr = None, numRowsLimit = None\<rparr>), Returns_stream)
   \<and> length [(Some ''a'', Some ''c'')] \<noteq>
       length [\<lparr>range_start = Some ''a'', range_end = Some ''c''\<rparr>] + 1"
  by (simp add: getRows_def getRows_reqOpts_def getRows_rows_def getRows_ranges_def
        truthy_number_def truthy_string_def)

text \<open>
  C6, amended. When \<^verbatim>\<open>options.start\<close> or \<^verbatim>\<open>options.end\<close> is truthy (a non-empty
  string), the pair \<^verbatim>\<open>{start, end}\<close> is appended to the ranges: the row-range list of the
  request has length \<^verbatim>\<open>|options.ranges| + 1\<close>, its first elements are the explicit ranges,
  encoded in order, and its last element is the encoded shorthand range. When each of
  \<^verbatim>\<open>options.start\<close> and \<^verbatim>\<open>options.end\<close> is absent or the empty string, nothing is
  appended: the row-range list of the request (empty when the request has none) is the
  encoding of the explicit ranges alone, of length \<^verbatim>\<open>|options.ranges|\<close>.
\<close>

theorem getRows_shorthand_appended:
  assumes "getRows convertToBytes createRange parse table_id options has_callback =
             Inr ((grpcOpts, reqOpts), ret)"
  shows "(truthy_string (opt_start options) \<or> truthy_string (opt_end options) \<longrightarrow>
          (\<exists>rws rs. rows reqOpts = Some rws \<and> rowRanges rws = Some rs
             \<and> length rs = length (case opt_ranges options of None \<Rightarrow> [] | Some xs \<Rightarrow> xs) + 1
             \<and> (\<forall>i<length (case opt_ranges options of None \<Rightarrow> [] | Some xs \<Rightarrow> xs).
                   createRange (range_start ((case opt_ranges options of None \<Rightarrow> [] | Some xs \<Rightarrow> xs) ! i))
                               (range_end ((case opt_ranges options of None \<Rightarrow> [] | Some xs \<Rightarrow> xs) ! i))
                               ''Key'' = Inr (rs ! i))
             \<and> createRange (opt_start options) (opt_end options) ''Key'' = Inr (last rs)))
         \<and> ((opt_start options = None \<or> opt_start options = Some [])
              \<and> (opt_end options = None \<or> opt_end options = Some []) \<longrightarrow>
             array_map (\<lambda>range. createRange (range_start range) (range_end range) ''Key'')
               (case opt_ranges options of None \<Rightarrow> [] | Some xs \<Rightarrow> xs) =
               Inr (case rows reqOpts of None \<Rightarrow> []
                    | Some rws \<Rightarrow> (case rowRanges rws of None \<Rightarrow> [] | Some rs \<Rightarrow> rs))
             \<and> length (case rows reqOpts of None \<Rightarrow> []
                        | Some rws \<Rightarrow> (case rowRanges rws of None \<Rightarrow> [] | Some rs \<Rightarrow> rs)) =
                 length (case opt_ranges options of None \<Rightarrow> [] | Some xs \<Rightarrow> xs))"
proof (intro conjI impI)
  define ranges where "ranges = (case opt_ranges options of None \<Rightarrow> [] | Some xs \<Rightarrow> xs)"
  define short where "short = \<lparr>range_start = opt_start options, range_end = opt_end options\<rparr>"
  define mk where "mk = (\<lambda>range :: key_range. createRange (range_start range) (range_end range) ''Key'')"
  note rws = getRows_Inr_rows [OF assms]
  {
    assume t: "truthy_string (opt_start options) \<or> truthy_string (opt_end options)"
    have all: "getRows_ranges options = ranges @ [short]"
      using t by (simp add: getRows_ranges_def ranges_def short_def)
    from getRows_rows_ranges(2) [OF rws] all obtain rs0 rs where
      some: "rows reqOpts = Some rs0" "rowRanges rs0 = Some rs" by auto
    have enc: "array_map mk (ranges @ [short]) = Inr rs"
      using getRows_rows_ranges(1) [OF rws] by (simp add: all some mk_def)
    from array_map_nth [OF enc] have len: "length rs = length ranges + 1"
      and nth: "\<forall>i<length (ranges @ [short]). mk ((ranges @ [short]) ! i) = Inr (rs ! i)"
      by simp_all
    have pre: "\<forall>i<length ranges. mk (ranges ! i) = Inr (rs ! i)"
    proof (intro allI impI)
      fix i assume i: "i < length ranges"
      then have "mk ((ranges @ [short]) ! i) = Inr (rs ! i)" using nth by simp
      then show "mk (ranges ! i) = Inr (rs ! i)" using i by (simp add: nth_append)
    qed
    have "mk ((ranges @ [short]) ! length ranges) = Inr (rs ! length ranges)"
      using nth [rule_format, of "length ranges"] by simp
    moreover have "rs \<noteq> []" using len by auto
    then have "last rs = rs ! length ranges" using len by (simp add: last_conv_nth)
    ultimately have lst: "mk short = Inr (last rs)" by simp
    show "\<exists>rws rs. rows reqOpts = Some rws \<and> rowRanges rws = Some rs
             \<and> length rs = length (case opt_ranges options of None \<Rightarrow> [] | Some xs \<Rightarrow> xs) + 1
             \<and> (\<forall>i<length (case opt_ranges options of None \<Rightarrow> [] | Some xs \<Rightarrow> xs).
                   createRange (range_start ((case opt_ranges options of None \<Rightarrow> [] | Some xs \<Rightarrow> xs) ! i))
                               (range_end ((case opt_ranges options of None \<Rightarrow> [] | Some xs \<Rightarrow> xs) ! i))
                               ''Key'' = Inr (rs ! i))
             \<and> createRange (opt_start options) (opt_end options) ''Key'' = Inr (last rs)"
      using some len pre lst
      unfolding ranges_def [symmetric] by (simp add: mk_def short_def)
  }
  {
    assume f: "(opt_start options = None \<or> opt_start options = Some [])
               \<and> (opt_end options = None \<or> opt_end options = Some [])"
    have all: "getRows_ranges options = ranges"
      using f by (auto simp: getRows_ranges_def ranges_def truthy_string_def)
    have enc: "array_map mk ranges =
                 Inr (case rows reqOpts of None \<Rightarrow> []
                      | Some rws \<Rightarrow> (case rowRanges rws of None \<Rightarrow> [] | Some rs \<Rightarrow> rs))"
      using getRows_rows_ranges(1) [OF rws] by (simp add: all mk_def)
    then show "array_map (\<lambda>range. createRange (range_start range) (range_end range) ''Key'')
               (case opt_ranges options of None \<Rightarrow> [] | Some xs \<Rightarrow> xs) =
               Inr (case rows reqOpts of None \<Rightarrow> []
                    | Some rws \<Rightarrow> (case rowRanges rws of None \<Rightarrow> [] | Some rs \<Rightarrow> rs))"
      by (simp add: mk_def ranges_def)
    show "length (case rows reqOpts of None \<Rightarrow> []
                        | Some rws \<Rightarrow> (case rowRanges rws of None \<Rightarrow> [] | Some rs \<Rightarrow> rs)) =
                 length (case opt_ranges options of None \<Rightarrow> [] | Some xs \<Rightarrow> xs)"
      using array_map_nth [OF enc] by (simp add: ranges_def)
  }
qed

theorem getRows_shorthand_appended_witness:
  "(truthy_string (Some ''a'') \<or> truthy_string (Some ''c''))
   \<and> getRows (Inr :: string \<Rightarrow> js_error + string) (\<lambda>s e k. Inr (s, e))
        (Inr :: nat \<Rightarrow> js_error + nat) ''t''
        \<lparr>opt_decode = None, opt_keys = None, opt_start = Some ''a'', opt_end = Some ''c'',
         opt_ranges = Some [\<lparr>range_start = Some ''x'', range_end = Some ''z''\<rparr>],
         opt_filter = None, opt_interleave = None, opt_limit = None\<rparr> True
      = Inr ((\<lparr>service = ''Bigtable'', grpc_method = ''readRows''\<rparr>,
              \<lparr>tableName = ''t'', objectMode = True,
               rows = Some \<lparr>rowKeys = None,
                            rowRanges = Some [(Some ''x'', Some ''z''), (Some ''a'', Some ''c'')]\<rparr>,
               filter_expr = None, numRowsLimit = None\<rparr>), Returns_undefined)
   \<and> (\<exists>rs. rowRanges \<lparr>rowKeys = (None :: string list option),
                        rowRanges = Some [(Some ''x'', Some ''z''), (Some ''a'', Some ''c'')]\<rparr>
              = Some rs
            \<and> length rs = length [\<lparr>range_start = Some ''x'', range_end = Some ''z''\<rparr>] + 1
            \<and> last rs = (Some ''a'', Some ''c''))
   \<and> getRows (Inr :: string \<Rightarrow> js_error + string) (\<lambda>s e k. Inr (s, e))
        (Inr :: nat \<Rightarrow> js_error + nat) ''t''
        \<lparr>opt_decode = None, opt_keys = None, opt_start = Some [], opt_end = None,
         opt_ranges = Some [\<lparr>range_start = Some ''x'', range_end = Some ''z''\<rparr>],
         opt_filter = None, opt_interleave = None, opt_limit = None\<rparr> True
      = Inr ((\<lparr>service = ''Bigtable'', grpc_method = ''readRows''\<rparr>,
              \<lparr>tableName = ''t'', objectMode = True,
               rows = Some \<lparr>rowKeys = None, rowRanges = Some [(Some ''x'', Some ''z'')]\<rparr>,
               filter_expr = None, numRowsLimit = None\<rparr>), Returns_undefined)
   \<and> length (case rowRanges \<lparr>rowKeys = (None :: string list option),
                               rowRanges = Some [(Some ''x'', Some ''z'')]\<rparr> of
              None \<Rightarrow> [] | Some rs \<Rightarrow> rs)
       = length [\<lparr>range_start = Some ''x'', range_end = Some ''z''\<rparr>]"
proof -
  let ?taken = "\<lparr>opt_decode = None, opt_keys = None, opt_start = Some ''a'',
                 opt_end = Some ''c'',
                 opt_ranges = Some [\<lparr>range_start = Some ''x'', range_end = Some ''z''\<rparr>],
                 opt_filter = (None :: nat option), opt_interleave = None, opt_limit = None\<rparr>"
  let ?empty = "\<lparr>opt_decode = None, opt_keys = None, opt_start = Some [],
                 opt_end = None,
                 opt_ranges = Some [\<lparr>range_start = Some ''x'', range_end = Some ''z''\<rparr>],
                 opt_filter = (None :: nat option), opt_interleave = None, opt_limit = None\<rparr>"
  let ?req = "\<lambda>rs. \<lparr>tableName = ''t'', objectMode = True,
                     rows = Some \<lparr>rowKeys = (None :: string list option), rowRanges = Some rs\<rparr>,
                     filter_expr = (None :: nat option), numRowsLimit = None\<rparr>"
  have t: "truthy_string (opt_start ?taken) \<or> truthy_string (opt_end ?taken)"
    by (simp add: truthy_string_def)
  have e: "(opt_start ?empty = None \<or> opt_start ?empty = Some [])
           \<and> (opt_end ?empty = None \<or> opt_end ?empty = Some [])"
    by simp
  have h1: "getRows (Inr :: string \<Rightarrow> js_error + string) (\<lambda>s e k. Inr (s, e))
              (Inr :: nat \<Rightarrow> js_error + nat) ''t'' ?taken True
            = Inr ((\<lparr>service = ''Bigtable'', grpc_method = ''readRows''\<rparr>,
                    ?req [(Some ''x'', Some ''z''), (Some ''a'', Some ''c'')]),
                   Returns_undefined)"
    by (simp add: getRows_def getRows_reqOpts_def getRows_rows_def getRows_ranges_def
          truthy_number_def truthy_string_def)
  have h2: "getRows (Inr :: string \<Rightarrow> js_error + string) (\<lambda>s e k. Inr (s, e))
              (Inr :: nat \<Rightarrow> js_error + nat) ''t'' ?empty True
            = Inr ((\<lparr>service = ''Bigtable'', grpc_method = ''readRows''\<rparr>,
                    ?req [(Some ''x'', Some ''z'')]),
                   Returns_undefined)"
    by (simp add: getRows_def getRows_reqOpts_def getRows_rows_def getRows_ranges_def
          truthy_number_def truthy_string_def)
  from getRows_shorthand_appended [OF h1] t
  have c1: "\<exists>rs. rowRanges \<lparr>rowKeys = (None :: string list option),
                        rowRanges = Some [(Some ''x'', Some ''z''), (Some ''a'', Some ''c'')]\<rparr>
              = Some rs
            \<and> length rs = length [\<lparr>range_start = Some ''x'', range_end = Some ''z''\<rparr>] + 1
            \<and> last rs = (Some ''a'', Some ''c'')"
    by auto
  from getRows_shorthand_appended [OF h2] e
  have c2: "length (case rowRanges \<lparr>rowKeys = (None :: string list option),
                               rowRanges = Some [(Some ''x'', Some ''z'')]\<rparr> of
              None \<Rightarrow> [] | Some rs \<Rightarrow> rs)
       = length [\<lparr>range_start = Some ''x'', range_end = Some ''z''\<rparr>]"
    by simp
  show ?thesis
    using t h1 h2 c1 c2 by simp
qed

text \<open>
  C7. When \<^verbatim>\<open>options.keys\<close> is a non-empty list and the ranges are non-empty (an explicit
  non-empty \<^verbatim>\<open>options.ranges\<close>, or the shorthand taken from a truthy \<^verbatim>\<open>start\<close> or
  \<^verbatim>\<open>end\<close>), the request holds both lists: the row keys, one encoded key for each given
  key, and the row ranges, one encoded range for each range. Neither suppresses the other.
\<close>

theorem getRows_keys_and_ranges_additive:
  assumes "opt_keys options = Some ks" and "ks \<noteq> []"
    and "(case opt_ranges options of None \<Rightarrow> [] | Some xs \<Rightarrow> xs) \<noteq> []
         \<or> truthy_string (opt_start options) \<or> truthy_string (opt_end options)"
    and "getRows convertToBytes createRange parse table_id options has_callback =
           Inr ((grpcOpts, reqOpts), ret)"
  shows "\<exists>rws bs rs. rows reqOpts = Some rws
           \<and> rowKeys rws = Some bs \<and> array_map convertToBytes ks = Inr bs \<and> length bs = length ks
           \<and> rowRanges rws = Some rs
           \<and> array_map (\<lambda>range. createRange (range_start range) (range_end range) ''Key'')
                (getRows_ranges options) = Inr rs
           \<and> length rs = length (getRows_ranges options) \<and> rs \<noteq> []"
proof -
  have ne: "getRows_ranges options \<noteq> []"
    using assms(3) by (auto simp: getRows_ranges_def Let_def)
  from assms(4) obtain rws where
    rws: "getRows_rows convertToBytes createRange (Some ks) (getRows_ranges options) = Inr rws"
    and req: "rows reqOpts = rws"
    by (auto simp: getRows_def getRows_reqOpts_def assms(1) split: sum.splits)
  from rws ne obtain bs rs where
    some: "rws = Some \<lparr>rowKeys = Some bs, rowRanges = Some rs\<rparr>"
    and keys: "array_map convertToBytes ks = Inr bs"
    and enc: "array_map (\<lambda>range. createRange (range_start range) (range_end range) ''Key'')
                (getRows_ranges options) = Inr rs"
    by (auto simp: getRows_rows_def map_sum_Some_Inr split: sum.splits)
  have "length bs = length ks" using array_map_nth [OF keys] by simp
  moreover have "length rs = length (getRows_ranges options)" using array_map_nth [OF enc] by simp
  moreover from this ne have "rs \<noteq> []" by auto
  ultimately show ?thesis using req some keys enc by simp
qed

theorem getRows_keys_and_ranges_additive_witness:
  "opt_keys \<lparr>opt_decode = None, opt_keys = Some [''k1'', ''k2''], opt_start = None,
             opt_end = Some ''m'',
             opt_ranges = Some [\<lparr>range_start = Some ''x'', range_end = Some ''z''\<rparr>],
             opt_filter = (None :: nat option), opt_interleave = None, opt_limit = None\<rparr>
     = Some [''k1'', ''k2'']
   \<and> [''k1'', ''k2''] \<noteq> []
   \<and> getRows (Inr :: string \<Rightarrow> js_error + string) (\<lambda>s e k. Inr (s, e))
        (Inr :: nat \<Rightarrow> js_error + nat) ''t''
        \<lparr>opt_decode = None, opt_keys = Some [''k1'', ''k2''], opt_start = None,
         opt_end = Some ''m'',
         opt_ranges = Some [\<lparr>range_start = Some ''x'', range_end = Some ''z''\<rparr>],
         opt_filter = None, opt_interleave = None, opt_limit = None\<rparr> False
      = Inr ((\<lparr>service = ''Bigtable'', grpc_method = ''readRows''\<rparr>,
              \<lparr>tableName = ''t'', objectMode = True,
               rows = Some \<lparr>rowKeys = Some [''k1'', ''k2''],
                            rowRanges = Some [(Some ''x'', Some ''z''), (None, Some ''m'')]\<rparr>,
               filter_expr = None, numRowsLimit = None\<rparr>), Returns_stream)
   \<and> (\<exists>bs rs. rowKeys \<lparr>rowKeys = Some [''k1'', ''k2''],
                         rowRanges = Some [(Some ''x'', Some ''z''), (None, Some ''m'')]\<rparr> = Some bs
            \<and> rowRanges \<lparr>rowKeys = Some [''k1'', ''k2''],
                         rowRanges = Some [(Some ''x'', Some ''z''), (None, Some ''m'')]\<rparr> = Some rs
            \<and> length bs = 2 \<and> length rs = 2)"
proof -
  let ?options = "\<lparr>opt_decode = None, opt_keys = Some [''k1'', ''k2''], opt_start = None,
                   opt_end = Some ''m'',
                   opt_ranges = Some [\<lparr>range_start = Some ''x'', range_end = Some ''z''\<rparr>],
                   opt_filter = (None :: nat option), opt_interleave = None, opt_limit = None\<rparr>"
  let ?reqOpts = "\<lparr>tableName = ''t'', objectMode = True,
                   rows = Some \<lparr>rowKeys = Some [''k1'', ''k2''],
                                rowRanges = Some [(Some ''x'', Some ''z''), (None, Some ''m'')]\<rparr>,
                   filter_expr = (None :: nat option), numRowsLimit = None\<rparr>"
  have h1: "opt_keys ?options = Some [''k1'', ''k2'']" by simp
  have h2: "[''k1'', ''k2''] \<noteq> []" by simp
  have h3: "(case opt_ranges ?options of None \<Rightarrow> [] | Some xs \<Rightarrow> xs) \<noteq> []
            \<or> truthy_string (opt_start ?options) \<or> truthy_string (opt_end ?options)"
    by simp
  have h4: "getRows (Inr :: string \<Rightarrow> js_error + string) (\<lambda>s e k. Inr (s, e))
              (Inr :: nat \<Rightarrow> js_error + nat) ''t'' ?options False
            = Inr ((\<lparr>service = ''Bigtable'', grpc_method = ''readRows''\<rparr>, ?reqOpts),
                   Returns_stream)"
    by (simp add: getRows_def getRows_reqOpts_def getRows_rows_def getRows_ranges_def
          truthy_number_def truthy_string_def)
  show ?thesis
    using h1 h2 h4 getRows_keys_and_ranges_additive [OF h1 h2 h3 h4] by simp
qed

section \<open>insert and mutate: the entries\<close>

text \<open>
  C9. For every entries input and with or without a callback, \<^verbatim>\<open>insert\<close> is \<^verbatim>\<open>mutate\<close>
  applied to the arrified input in which every entry has its method set to insert: the two
  calls leave the same store, build the same request, return the same value and hold the
  same entries for the handlers of the stream.
\<close>

theorem insert_is_mutate_pre_tagged:
  "insert_entries_call parse table_id h entries_arg has_callback =
     mutate_pre_tagged parse table_id h entries_arg has_callback"
  by (simp add: insert_entries_call_def mutate_pre_tagged_def insert_map_eq)

theorem insert_is_mutate_pre_tagged_witness:
  "map_sum id (\<lambda>c. (call_heap c 0, call_heap c 1, call_entries c, call_request c, call_returned c))
     (insert_entries_call (\<lambda>h v. case v of Entry r \<Rightarrow> Inr (h r) | _ \<Rightarrow> Inl (Error ''bad''))
        ''t'' (\<lambda>r. \<lparr>key = ''a'', entry_method = None, data = (None :: unit option)\<rparr>)
        (Many [0]) True)
   = Inr (\<lparr>key = ''a'', entry_method = Some INSERT, data = None\<rparr>,
          \<lparr>key = ''a'', entry_method = None, data = None\<rparr>,
          [Entry 0],
          (\<lparr>service = ''Bigtable'', grpc_method = ''mutateRows''\<rparr>,
           \<lparr>mutate_objectMode = True, mutate_tableName = ''t'',
            mutate_entries = [\<lparr>key = ''a'', entry_method = Some INSERT, data = None\<rparr>]\<rparr>),
          Returns_undefined)"
  using insert_is_mutate_pre_tagged
    [of "\<lambda>h v. case v of Entry r \<Rightarrow> Inr (h r) | _ \<Rightarrow> Inl (Error ''bad'')" "''t''"
        "\<lambda>r. \<lparr>key = ''a'', entry_method = None, data = (None :: unit option)\<rparr>" "Many [0]" True]
  by (simp add: mutate_pre_tagged_def mutate_def pre_tagged_def Let_def)

text \<open>
  C2, as stated, for \<^verbatim>\<open>insert({key: 'a'})\<close>: after the call, the caller's own object has
  \<^verbatim>\<open>method\<close> set to insert, while it had none before. The tagging assigns the property on
  the object it is given; no copy is made.
\<close>

theorem insert_tags_in_place_counterexample:
  "map_sum id (\<lambda>c. call_heap c 0)
     (insert_entries_call (\<lambda>h v. Inr v) ''t''
        (\<lambda>r. \<lparr>key = ''a'', entry_method = None, data = (None :: unit option)\<rparr>) (One 0) True)
   = Inr \<lparr>key = ''a'', entry_method = Some INSERT, data = None\<rparr>
   \<and> (\<lambda>r. \<lparr>key = ''a'', entry_method = None, data = (None :: unit option)\<rparr>) (0 :: ref)
       \<noteq> \<lparr>key = ''a'', entry_method = Some INSERT, data = None\<rparr>"
  by (simp add: insert_entries_call_def mutate_def propAssign_method_def Let_def)

text \<open>
  C2, amended. \<^verbatim>\<open>mutate\<close> leaves every entry object as it was. \<^verbatim>\<open>insert\<close> makes no
  copies: it sets \<^verbatim>\<open>method\<close> to insert on each of the caller's entry objects, leaves their
  \<^verbatim>\<open>key\<close> and \<^verbatim>\<open>data\<close> and every other object as they were, hands those same objects to
  \<^verbatim>\<open>mutate\<close>, and the encoder reads them as tagged.
\<close>

theorem mutate_frame_insert_tags:
  "(mutate parse table_id h entries_arg has_callback = Inr call \<longrightarrow> call_heap call = h)
   \<and> (insert_entries_call parse table_id h ins_arg has_callback = Inr icall \<longrightarrow>
        (\<forall>r. key (call_heap icall r) = key (h r) \<and> data (call_heap icall r) = data (h r)
              \<and> entry_method (call_heap icall r) =
                  (if r \<in> set (arrify_insert ins_arg) then Some INSERT else entry_method (h r)))
        \<and> call_entries icall = map Entry (arrify_insert ins_arg)
        \<and> array_map (parse (call_heap icall)) (call_entries icall) =
            Inr (mutate_entries (snd (call_request icall))))"
proof (intro conjI impI)
  assume "mutate parse table_id h entries_arg has_callback = Inr call"
  then show "call_heap call = h"
    by (auto simp: mutate_def Let_def split: sum.splits)
next
  assume "insert_entries_call parse table_id h ins_arg has_callback = Inr icall"
  then have m: "mutate parse table_id (pre_tagged h (arrify_insert ins_arg))
                  (Array (map Entry (arrify_insert ins_arg))) has_callback = Inr icall"
    by (simp add: insert_entries_call_def insert_map_eq)
  then obtain encoded where
    enc: "array_map (parse (pre_tagged h (arrify_insert ins_arg)))
            (map Entry (arrify_insert ins_arg)) = Inr encoded"
    and hp: "call_heap icall = pre_tagged h (arrify_insert ins_arg)"
    and es: "call_entries icall = map Entry (arrify_insert ins_arg)"
    and rq: "mutate_entries (snd (call_request icall)) = encoded"
    by (auto simp: mutate_def Let_def flatten_map_Entry split: sum.splits)
  show "\<forall>r. key (call_heap icall r) = key (h r) \<and> data (call_heap icall r) = data (h r)
          \<and> entry_method (call_heap icall r) =
              (if r \<in> set (arrify_insert ins_arg) then Some INSERT else entry_method (h r))"
    by (simp add: hp pre_tagged_def)
  show "call_entries icall = map Entry (arrify_insert ins_arg)" by (rule es)
  show "array_map (parse (call_heap icall)) (call_entries icall) =
          Inr (mutate_entries (snd (call_request icall)))"
    by (simp add: hp es rq enc)
qed


theorem mutate_frame_insert_tags_witness:
  "mutate (\<lambda>h v. case v of Entry r \<Rightarrow> Inr (h r) | _ \<Rightarrow> Inl (Error ''bad'')) ''t''
     (\<lambda>r. \<lparr>key = ''a'', entry_method = None, data = (None :: unit option)\<rparr>)
     (Array [Entry 0]) True
   = Inr \<lparr>call_heap = (\<lambda>r. \<lparr>key = ''a'', entry_method = None, data = None\<rparr>),
          call_entries = [Entry 0], call_isCallbackMode = True,
          call_request =
            (\<lparr>service = ''Bigtable'', grpc_method = ''mutateRows''\<rparr>,
             \<lparr>mutate_objectMode = True, mutate_tableName = ''t'',
              mutate_entries = [\<lparr>key = ''a'', entry_method = None, data = None\<rparr>]\<rparr>),
          call_returned = Returns_undefined\<rparr>
   \<and> insert_entries_call (\<lambda>h v. case v of Entry r \<Rightarrow> Inr (h r) | _ \<Rightarrow> Inl (Error ''bad'')) ''t''
       (\<lambda>r. \<lparr>key = ''a'', entry_method = None, data = (None :: unit option)\<rparr>)
       (Many [0]) True
     = Inr \<lparr>call_heap = (\<lambda>r. \<lparr>key = ''a'', entry_method = None, data = None\<rparr>)
                          (0 := \<lparr>key = ''a'', entry_method = Some INSERT, data = None\<rparr>),
            call_entries = [Entry 0], call_isCallbackMode = True,
            call_request =
              (\<lparr>service = ''Bigtable'', grpc_method = ''mutateRows''\<rparr>,
               \<lparr>mutate_objectMode = True, mutate_tableName = ''t'',
                mutate_entries = [\<lparr>key = ''a'', entry_method = Some INSERT, data = None\<rparr>]\<rparr>),
            call_returned = Returns_undefined\<rparr>
   \<and> entry_method
        (((\<lambda>r. \<lparr>key = ''a'', entry_method = None, data = (None :: unit option)\<rparr>)
           (0 := \<lparr>key = ''a'', entry_method = Some INSERT, data = None\<rparr>)) (0 :: ref))
       = Some INSERT
   \<and> entry_method
        (((\<lambda>r. \<lparr>key = ''a'', entry_method = None, data = (None :: unit option)\<rparr>)
           (0 := \<lparr>key = ''a'', entry_method = Some INSERT, data = None\<rparr>)) (1 :: ref))
       = None"
proof -
  let ?parse = "\<lambda>(h :: unit heap) v. case v of Entry r \<Rightarrow> Inr (h r) | _ \<Rightarrow> Inl (Error ''bad'')"
  let ?h = "\<lambda>r :: ref. \<lparr>key = ''a'', entry_method = None, data = (None :: unit option)\<rparr>"
  let ?req = "\<lambda>m. (\<lparr>service = ''Bigtable'', grpc_method = ''mutateRows''\<rparr>,
                    \<lparr>mutate_objectMode = True, mutate_tableName = ''t'',
                     mutate_entries = [\<lparr>key = ''a'', entry_method = m, data = (None :: unit option)\<rparr>]\<rparr>)"
  let ?call = "\<lparr>call_heap = ?h, call_entries = [Entry 0], call_isCallbackMode = True,
                call_request = ?req None, call_returned = Returns_undefined\<rparr>"
  let ?icall = "\<lparr>call_heap = ?h(0 := \<lparr>key = ''a'', entry_method = Some INSERT, data = None\<rparr>),
                 call_entries = [Entry 0], call_isCallbackMode = True,
                 call_request = ?req (Some INSERT), call_returned = Returns_undefined\<rparr>"
  have h1: "mutate ?parse ''t'' ?h (Array [Entry 0]) True = Inr ?call"
    by (simp add: mutate_def Let_def)
  have h2: "insert_entries_call ?parse ''t'' ?h (Many [0]) True = Inr ?icall"
    by (simp add: insert_entries_call_def mutate_def propAssign_method_def Let_def)
  show ?thesis
    using h1 h2
      mutate_frame_insert_tags [of ?parse "''t''" ?h "Array [Entry 0]" True ?call "Many [0]" ?icall]
    by simp
qed

text \<open>
  C1, as stated, for \<^verbatim>\<open>mutate([], callback)\<close> and for an array of 100,001 entries: neither
  call fails. \<^verbatim>\<open>mutate\<close> has no test on the number of entries; in both cases
  \<^verbatim>\<open>requestStream\<close> is called for mutateRows, with no encoded entry in the first case and
  with 100,001 in the second.
\<close>

theorem mutate_entry_count_counterexample:
  "length (flatten (arrify (Array []))) = 0
   \<and> map_sum id (\<lambda>c. (call_request c, call_returned c))
       (mutate (\<lambda>h v. Inr v) ''t''
          (\<lambda>r. \<lparr>key = ''a'', entry_method = None, data = (None :: unit option)\<rparr>) (Array []) True)
     = Inr ((\<lparr>service = ''Bigtable'', grpc_method = ''mutateRows''\<rparr>,
             \<lparr>mutate_objectMode = True, mutate_tableName = ''t'', mutate_entries = []\<rparr>),
            Returns_undefined)
   \<and> 100000 < length (flatten (arrify (Array (replicate 100001 (Entry 0)))))
   \<and> map_sum id (\<lambda>c. (fst (call_request c), length (mutate_entries (snd (call_request c)))))
       (mutate (\<lambda>h v. Inr v) ''t''
          (\<lambda>r. \<lparr>key = ''a'', entry_method = None, data = (None :: unit option)\<rparr>)
          (Array (replicate 100001 (Entry 0))) True)
     = Inr (\<lparr>service = ''Bigtable'', grpc_method = ''mutateRows''\<rparr>, 100001)"
  by (simp add: mutate_def Let_def flatten_replicate_Entry array_map_Inr)

text \<open>
  C1, amended. \<^verbatim>\<open>mutate\<close> makes no check on the number of entries. Whatever that number
  is, 0 and more than 100,000 included, when the encoder accepts every entry the streaming
  request is opened with one encoded mutation for each flattened entry, in order; and when the
  stream then fails (as when the service rejects the batch), the error reaches the caller
  through the stream: \<^verbatim>\<open>callback(err)\<close> with a callback, an error event without one.
\<close>

theorem mutate_no_entry_count_check:
  assumes "\<forall>v\<in>set (flatten (arrify entries_arg)). \<exists>w. parse h v = Inr w"
  shows "\<exists>call. mutate parse table_id h entries_arg has_callback = Inr call
           \<and> array_map (parse h) (flatten (arrify entries_arg)) =
               Inr (mutate_entries (snd (call_request call)))
           \<and> length (mutate_entries (snd (call_request call))) =
               length (flatten (arrify entries_arg))
           \<and> callback_calls (mutate_run decorateStatus call msgs (Failed err)) =
               (if has_callback then [Callback_error err] else [])
           \<and> (if has_callback then events (mutate_run decorateStatus call msgs (Failed err)) = []
               else last (events (mutate_run decorateStatus call msgs (Failed err))) =
                      Error_event (Stream_error err))"
proof -
  from array_map_total [OF assms] obtain encoded where
    enc: "array_map (parse h) (flatten (arrify entries_arg)) = Inr encoded" ..
  have len: "length encoded = length (flatten (arrify entries_arg))"
    using array_map_nth [OF enc] by simp
  let ?call = "\<lparr>call_heap = h, call_entries = flatten (arrify entries_arg),
                call_isCallbackMode = has_callback,
                call_request =
                  (\<lparr>service = ''Bigtable'', grpc_method = ''mutateRows''\<rparr>,
                   \<lparr>mutate_objectMode = True, mutate_tableName = table_id,
                    mutate_entries = encoded\<rparr>),
                call_returned = (if \<not> has_callback then Returns_emitter else Returns_undefined)\<rparr>"
  have m: "mutate parse table_id h entries_arg has_callback = Inr ?call"
    by (simp add: mutate_def Let_def enc)
  have run: "callback_calls (mutate_run decorateStatus ?call msgs (Failed err)) =
               (if has_callback then [Callback_error err] else [])"
    "if has_callback then events (mutate_run decorateStatus ?call msgs (Failed err)) = []
     else last (events (mutate_run decorateStatus ?call msgs (Failed err))) =
            Error_event (Stream_error err)"
    by (simp_all add: mutate_run_def Let_def mutate_transform_eq)
  show ?thesis
    using m enc len run by (intro exI [of _ ?call]) simp
qed

theorem mutate_no_entry_count_check_witness:
  "list_all (\<lambda>v. \<exists>w. Inr v = (Inr w :: js_error + jsv))
     (flatten (arrify (Array (replicate 100001 (Entry 0)))))
   \<and> (\<exists>call. mutate (\<lambda>h v. Inr v) ''t''
                 (\<lambda>r. \<lparr>key = ''a'', entry_method = None, data = (None :: unit option)\<rparr>)
                 (Array (replicate 100001 (Entry 0))) True = Inr call
         \<and> length (mutate_entries (snd (call_request call))) = 100001
         \<and> callback_calls (mutate_run (\<lambda>s. s) call [] (Failed ''rejected'')) =
             [Callback_error ''rejected''])"
proof -
  let ?parse = "\<lambda>(h :: unit heap) (v :: jsv). (Inr v :: js_error + jsv)"
  let ?h = "\<lambda>r :: ref. \<lparr>key = ''a'', entry_method = None, data = (None :: unit option)\<rparr>"
  let ?es = "Array (replicate 100001 (Entry 0))"
  have h1: "\<forall>v\<in>set (flatten (arrify ?es)). \<exists>w. ?parse ?h v = Inr w"
    by simp
  have len: "length (flatten (arrify ?es)) = 100001"
    by (simp add: flatten_replicate_Entry)
  show ?thesis
    using len
      mutate_no_entry_count_check [OF h1, where table_id = "''t''" and has_callback = True
        and decorateStatus = "\<lambda>s. s" and msgs = "[]" and err = "''rejected''"]
    by (auto simp: list_all_iff)
qed

section \<open>mutate: the statuses of the stream\<close>

text \<open>
  C3. For every entries input of \<^verbatim>\<open>mutate\<close>, nested or not and of any length, the
  flattened array is the concatenation, in the order given, of the elements of the input (an
  element that is an array contributing its own elements in their order); when the input is
  an array of entry objects, the flattened array holds those same objects. Every status of
  the stream with a non-zero code yields one failure object, in the order of arrival, whose
  \<^verbatim>\<open>entry\<close> is \<^verbatim>\<open>entries[index]\<close>: for an index inside the flattened array, the very
  object at that position. This holds whichever statuses the service reports as failed, with
  the failures collected for the callback or emitted as events.
\<close>

theorem mutate_failure_entry_by_index:
  assumes "mutate parse table_id h entries_arg has_callback = Inr call"
  shows "call_entries call =
           concat (map (\<lambda>v. case v of Array ys \<Rightarrow> ys | _ \<Rightarrow> [v]) (arrify entries_arg))
         \<and> (\<forall>rs. entries_arg = Array (map Entry rs) \<longrightarrow> call_entries call = map Entry rs)
         \<and> callback_calls (mutate_run decorateStatus call msgs (Ended :: 'err stream_end)) =
             (if has_callback
              then [Callback_result
                      (map (\<lambda>e. \<lparr>decorated = decorateStatus (status e),
                                  entry = js_index (call_entries call) (index e)\<rparr>)
                         (filter (\<lambda>e. code (status e) \<noteq> 0) (concat msgs)))]
              else [])
         \<and> events (mutate_run decorateStatus call msgs (Ended :: 'err stream_end)) =
             (if has_callback then []
              else map (\<lambda>e. Error_event (Status \<lparr>decorated = decorateStatus (status e),
                                                 entry = js_index (call_entries call) (index e)\<rparr>))
                     (filter (\<lambda>e. code (status e) \<noteq> 0) (concat msgs)) @ [Complete_event])
         \<and> (\<forall>i. 0 \<le> i \<and> i < int (length (call_entries call)) \<longrightarrow>
                js_index (call_entries call) i = call_entries call ! nat i)"
proof -
  note f = mutate_Inr_fields [OF assms]
  have a: "call_entries call =
             concat (map (\<lambda>v. case v of Array ys \<Rightarrow> ys | _ \<Rightarrow> [v]) (arrify entries_arg))"
    by (simp add: f(1) flatten_eq)
  have b: "\<forall>rs. entries_arg = Array (map Entry rs) \<longrightarrow> call_entries call = map Entry rs"
    by (simp add: f(1) flatten_map_Entry)
  have c: "callback_calls (mutate_run decorateStatus call msgs Ended) =
             (if has_callback
              then [Callback_result
                      (map (\<lambda>e. \<lparr>decorated = decorateStatus (status e),
                                  entry = js_index (call_entries call) (index e)\<rparr>)
                         (filter (\<lambda>e. code (status e) \<noteq> 0) (concat msgs)))]
              else [])"
    by (simp add: mutate_run_def Let_def f(2) mutate_transform_eq)
  have d: "events (mutate_run decorateStatus call msgs Ended) =
             (if has_callback then []
              else map (\<lambda>e. Error_event (Status \<lparr>decorated = decorateStatus (status e),
                                                 entry = js_index (call_entries call) (index e)\<rparr>))
                     (filter (\<lambda>e. code (status e) \<noteq> 0) (concat msgs)) @ [Complete_event])"
    by (simp add: mutate_run_def Let_def f(2) mutate_transform_eq)
  have e: "\<forall>i. 0 \<le> i \<and> i < int (length (call_entries call)) \<longrightarrow>
             js_index (call_entries call) i = call_entries call ! nat i"
    by (simp add: js_index_def)
  from a b c d e show ?thesis by blast
qed

text \<open>
  C4. A status with code 0 produces nothing: a message with such a status is handled exactly
  as the message without it. So when every status of the stream has code 0 and the stream
  ends normally, the callback is invoked once, with \<^verbatim>\<open>(null, [])\<close>, or, without a
  callback, the only event emitted is one complete.
\<close>

theorem mutate_success_yields_nothing:
  "(code (status e) = 0 \<longrightarrow>
      mutate_forEach isCallbackMode decorateStatus entries (before @ e # after) (st :: ('ds, 'err) mutate_state) =
        mutate_forEach isCallbackMode decorateStatus entries (before @ after) st)
   \<and> ((\<forall>data_entries\<in>set msgs. \<forall>e\<in>set data_entries. code (status e) = 0)
        \<and> mutate parse table_id h entries_arg has_callback = Inr call \<longrightarrow>
        mutate_run decorateStatus call msgs (Ended :: 'err stream_end) =
          (if has_callback then \<lparr>events = [], callback_calls = [Callback_result []]\<rparr>
           else \<lparr>events = [Complete_event], callback_calls = []\<rparr>))"
proof (intro conjI impI)
  assume "code (status e) = 0"
  then show "mutate_forEach isCallbackMode decorateStatus entries (before @ e # after) st =
               mutate_forEach isCallbackMode decorateStatus entries (before @ after) st"
    by (simp add: mutate_forEach_append)
next
  assume asm: "(\<forall>data_entries\<in>set msgs. \<forall>e\<in>set data_entries. code (status e) = 0)
               \<and> mutate parse table_id h entries_arg has_callback = Inr call"
  then have none: "filter (\<lambda>e. code (status e) \<noteq> 0) (concat msgs) = []"
    by (auto simp: filter_empty_conv)
  from asm have m: "call_isCallbackMode call = has_callback"
    using mutate_Inr_fields(2) by blast
  show "mutate_run decorateStatus call msgs Ended =
          (if has_callback then \<lparr>events = [], callback_calls = [Callback_result []]\<rparr>
           else \<lparr>events = [Complete_event], callback_calls = []\<rparr>)"
    by (simp add: mutate_run_def Let_def m mutate_transform_eq none)
qed

text \<open>
  C5. Without a callback, \<^verbatim>\<open>mutate\<close> returns an EventEmitter, fixed before any message
  of the stream is handled. Handling a message emits one error event for each of its failed
  statuses, in order, and pushes nothing downstream. When the stream fails, its error is
  emitted as one more error event; when it ends normally, exactly one complete event is
  emitted, after the error events of the failed statuses, and it carries nothing. The
  callback is never involved.
\<close>

theorem mutate_emitter_mode:
  assumes "mutate parse table_id h entries_arg False = Inr call"
  shows "call_returned call = Returns_emitter
         \<and> mutate_forEach False decorateStatus (call_entries call) data_entries (st :: ('ds, 'err) mutate_state) =
             st\<lparr>emitted := emitted st @
                  map (\<lambda>e. Error_event (Status \<lparr>decorated = decorateStatus (status e),
                                                 entry = js_index (call_entries call) (index e)\<rparr>))
                    (filter (\<lambda>e. code (status e) \<noteq> 0) data_entries)\<rparr>
         \<and> mutate_run decorateStatus call msgs (Failed err) =
             \<lparr>events =
                map (\<lambda>e. Error_event (Status \<lparr>decorated = decorateStatus (status e),
                                               entry = js_index (call_entries call) (index e)\<rparr>))
                  (filter (\<lambda>e. code (status e) \<noteq> 0) (concat msgs))
                @ [Error_event (Stream_error err)],
              callback_calls = []\<rparr>
         \<and> mutate_run decorateStatus call msgs (Ended :: 'err stream_end) =
             \<lparr>events =
                map (\<lambda>e. Error_event (Status \<lparr>decorated = decorateStatus (status e),
                                               entry = js_index (call_entries call) (index e)\<rparr>))
                  (filter (\<lambda>e. code (status e) \<noteq> 0) (concat msgs))
                @ [Complete_event],
              callback_calls = []\<rparr>
         \<and> length (filter (\<lambda>ev. ev = Complete_event)
                     (events (mutate_run decorateStatus call msgs (Ended :: 'err stream_end)))) = 1"
proof -
  note f = mutate_Inr_fields [OF assms]
  have a: "call_returned call = Returns_emitter" using f(3) by simp
  have b: "mutate_forEach False decorateStatus (call_entries call) data_entries st =
             st\<lparr>emitted := emitted st @
                  map (\<lambda>e. Error_event (Status \<lparr>decorated = decorateStatus (status e),
                                                 entry = js_index (call_entries call) (index e)\<rparr>))
                    (filter (\<lambda>e. code (status e) \<noteq> 0) data_entries)\<rparr>"
    by (simp add: mutate_forEach_eq)
  have c: "mutate_run decorateStatus call msgs (Failed err) =
             \<lparr>events =
                map (\<lambda>e. Error_event (Status \<lparr>decorated = decorateStatus (status e),
                                               entry = js_index (call_entries call) (index e)\<rparr>))
                  (filter (\<lambda>e. code (status e) \<noteq> 0) (concat msgs))
                @ [Error_event (Stream_error err)],
              callback_calls = []\<rparr>"
    using f(2) by (simp add: mutate_run_def Let_def mutate_transform_eq)
  have d: "mutate_run decorateStatus call msgs Ended =
             \<lparr>events =
                map (\<lambda>e. Error_event (Status \<lparr>decorated = decorateStatus (status e),
                                               entry = js_index (call_entries call) (index e)\<rparr>))
                  (filter (\<lambda>e. code (status e) \<noteq> 0) (concat msgs))
                @ [Complete_event],
              callback_calls = []\<rparr>"
    using f(2) by (simp add: mutate_run_def Let_def mutate_transform_eq)
  have e: "length (filter (\<lambda>ev. ev = Complete_event)
                     (events (mutate_run decorateStatus call msgs Ended))) = 1"
    by (simp add: d filter_empty_conv)
  from a b c d e show ?thesis by blast
qed

theorem mutate_failure_entry_by_index_witness:
  "mutate (\<lambda>h v. Inr v) ''t''
     (\<lambda>r. \<lparr>key = ''a'', entry_method = None, data = (None :: unit option)\<rparr>)
     (Array (map Entry [5, 6, 7])) True
   = Inr \<lparr>call_heap = (\<lambda>r. \<lparr>key = ''a'', entry_method = None, data = None\<rparr>),
          call_entries = [Entry 5, Entry 6, Entry 7], call_isCallbackMode = True,
          call_request =
            (\<lparr>service = ''Bigtable'', grpc_method = ''mutateRows''\<rparr>,
             \<lparr>mutate_objectMode = True, mutate_tableName = ''t'',
              mutate_entries = [Entry 5, Entry 6, Entry 7]\<rparr>),
          call_returned = Returns_undefined\<rparr>
   \<and> (0 :: int) \<le> 2 \<and> (2 :: int) < int (length [Entry 5, Entry 6, Entry 7])
   \<and> js_index [Entry 5, Entry 6, Entry 7] 2 = Entry 7
   \<and> callback_calls
        (mutate_run (\<lambda>s. s)
           \<lparr>call_heap = (\<lambda>r. \<lparr>key = ''a'', entry_method = None, data = (None :: unit option)\<rparr>),
            call_entries = [Entry 5, Entry 6, Entry 7], call_isCallbackMode = True,
            call_request =
              (\<lparr>service = ''Bigtable'', grpc_method = ''mutateRows''\<rparr>,
               \<lparr>mutate_objectMode = True, mutate_tableName = ''t'',
                mutate_entries = [Entry 5, Entry 6, Entry 7]\<rparr>),
            call_returned = Returns_undefined\<rparr>
           [[\<lparr>index = 2, status = \<lparr>code = 3, message = ''bad''\<rparr>\<rparr>,
             \<lparr>index = 0, status = \<lparr>code = 0, message = ''ok''\<rparr>\<rparr>]]
           (Ended :: string stream_end))
       = [Callback_result [\<lparr>decorated = \<lparr>code = 3, message = ''bad''\<rparr>, entry = Entry 7\<rparr>]]"
proof -
  let ?h = "\<lambda>r :: ref. \<lparr>key = ''a'', entry_method = None, data = (None :: unit option)\<rparr>"
  let ?call = "\<lparr>call_heap = ?h, call_entries = [Entry 5, Entry 6, Entry 7],
                call_isCallbackMode = True,
                call_request =
                  (\<lparr>service = ''Bigtable'', grpc_method = ''mutateRows''\<rparr>,
                   \<lparr>mutate_objectMode = True, mutate_tableName = ''t'',
                    mutate_entries = [Entry 5, Entry 6, Entry 7]\<rparr>),
                call_returned = Returns_undefined\<rparr>"
  have h1: "mutate (\<lambda>h v. Inr v) ''t'' ?h (Array (map Entry [5, 6, 7])) True = Inr ?call"
    by (simp add: mutate_def Let_def)
  show ?thesis
    using h1
      mutate_failure_entry_by_index
        [OF h1, where 'err = string and decorateStatus = "\<lambda>s. s"
           and msgs = "[[\<lparr>index = 2, status = \<lparr>code = 3, message = ''bad''\<rparr>\<rparr>,
                         \<lparr>index = 0, status = \<lparr>code = 0, message = ''ok''\<rparr>\<rparr>]]"]
    by (simp add: js_index_def)
qed

theorem mutate_success_yields_nothing_witness:
  "code (status \<lparr>index = 0, status = \<lparr>code = 0, message = ''ok''\<rparr>\<rparr>) = 0
   \<and> mutate_forEach True (\<lambda>s. s) [Entry 5]
        ([] @ \<lparr>index = 0, status = \<lparr>code = 0, message = ''ok''\<rparr>\<rparr> # [])
        \<lparr>emitted = ([] :: (grpc_status, string) emitter_event list), pushed = []\<rparr>
       = \<lparr>emitted = [], pushed = []\<rparr>
   \<and> list_all (list_all (\<lambda>e. code (status e) = 0))
        [[\<lparr>index = 0, status = \<lparr>code = 0, message = ''ok''\<rparr>\<rparr>]]
   \<and> mutate (\<lambda>h v. Inr v) ''t''
        (\<lambda>r. \<lparr>key = ''a'', entry_method = None, data = (None :: unit option)\<rparr>)
        (Array [Entry 5]) True
      = Inr \<lparr>call_heap = (\<lambda>r. \<lparr>key = ''a'', entry_method = None, data = None\<rparr>),
             call_entries = [Entry 5], call_isCallbackMode = True,
             call_request =
               (\<lparr>service = ''Bigtable'', grpc_method = ''mutateRows''\<rparr>,
                \<lparr>mutate_objectMode = True, mutate_tableName = ''t'',
                 mutate_entries = [Entry 5]\<rparr>),
             call_returned = Returns_undefined\<rparr>
   \<and> mutate_run (\<lambda>s. s)
        \<lparr>call_heap = (\<lambda>r. \<lparr>key = ''a'', entry_method = None, data = (None :: unit option)\<rparr>),
         call_entries = [Entry 5], call_isCallbackMode = True,
         call_request =
           (\<lparr>service = ''Bigtable'', grpc_method = ''mutateRows''\<rparr>,
            \<lparr>mutate_objectMode = True, mutate_tableName = ''t'', mutate_entries = [Entry 5]\<rparr>),
         call_returned = Returns_undefined\<rparr>
        [[\<lparr>index = 0, status = \<lparr>code = 0, message = ''ok''\<rparr>\<rparr>]] (Ended :: string stream_end)
      = \<lparr>events = [], callback_calls = [Callback_result []]\<rparr>"
proof -
  let ?h = "\<lambda>r :: ref. \<lparr>key = ''a'', entry_method = None, data = (None :: unit option)\<rparr>"
  let ?e = "\<lparr>index = 0, status = \<lparr>code = 0, message = ''ok''\<rparr>\<rparr>"
  let ?call = "\<lparr>call_heap = ?h, call_entries = [Entry 5], call_isCallbackMode = True,
                call_request =
                  (\<lparr>service = ''Bigtable'', grpc_method = ''mutateRows''\<rparr>,
                   \<lparr>mutate_objectMode = True, mutate_tableName = ''t'',
                    mutate_entries = [Entry 5]\<rparr>),
                call_returned = Returns_undefined\<rparr>"
  have h1: "code (status ?e) = 0" by simp
  have h2: "\<forall>data_entries\<in>set [[?e]]. \<forall>e\<in>set data_entries. code (status e) = 0" by simp
  have h3: "mutate (\<lambda>h v. Inr v) ''t'' ?h (Array [Entry 5]) True = Inr ?call"
    by (simp add: mutate_def Let_def)
  show ?thesis
    using h1 h2 h3
      mutate_success_yields_nothing
        [where 'err = string and e = ?e and isCallbackMode = True and decorateStatus = "\<lambda>s. s"
           and entries = "[Entry 5]" and before = "[]" and after = "[]"
           and st = "\<lparr>emitted = ([] :: (grpc_status, string) emitter_event list), pushed = []\<rparr>"
           and msgs = "[[?e]]" and parse = "\<lambda>h v. Inr v" and table_id = "''t''" and h = ?h
           and entries_arg = "Array [Entry 5]" and has_callback = True and call = ?call]
    by simp
qed

theorem mutate_emitter_mode_witness:
  "mutate (\<lambda>h v. Inr v) ''t''
     (\<lambda>r. \<lparr>key = ''a'', entry_method = None, data = (None :: unit option)\<rparr>)
     (Array [Entry 5, Entry 6]) False
   = Inr \<lparr>call_heap = (\<lambda>r. \<lparr>key = ''a'', entry_method = None, data = None\<rparr>),
          call_entries = [Entry 5, Entry 6], call_isCallbackMode = False,
          call_request =
            (\<lparr>service = ''Bigtable'', grpc_method = ''mutateRows''\<rparr>,
             \<lparr>mutate_objectMode = True, mutate_tableName = ''t'',
              mutate_entries = [Entry 5, Entry 6]\<rparr>),
          call_returned = Returns_emitter\<rparr>
   \<and> mutate_run (\<lambda>s. s)
        \<lparr>call_heap = (\<lambda>r. \<lparr>key = ''a'', entry_method = None, data = (None :: unit option)\<rparr>),
         call_entries = [Entry 5, Entry 6], call_isCallbackMode = False,
         call_request =
           (\<lparr>service = ''Bigtable'', grpc_method = ''mutateRows''\<rparr>,
            \<lparr>mutate_objectMode = True, mutate_tableName = ''t'',
             mutate_entries = [Entry 5, Entry 6]\<rparr>),
         call_returned = Returns_emitter\<rparr>
        [[\<lparr>index = 1, status = \<lparr>code = 3, message = ''bad''\<rparr>\<rparr>],
         [\<lparr>index = 0, status = \<lparr>code = 0, message = ''ok''\<rparr>\<rparr>]]
        (Ended :: string stream_end)
      = \<lparr>events = [Error_event (Status \<lparr>decorated = \<lparr>code = 3, message = ''bad''\<rparr>,
                                          entry = Entry 6\<rparr>),
                    Complete_event],
         callback_calls = []\<rparr>"
proof -
  let ?h = "\<lambda>r :: ref. \<lparr>key = ''a'', entry_method = None, data = (None :: unit option)\<rparr>"
  let ?call = "\<lparr>call_heap = ?h, call_entries = [Entry 5, Entry 6], call_isCallbackMode = False,
                call_request =
                  (\<lparr>service = ''Bigtable'', grpc_method = ''mutateRows''\<rparr>,
                   \<lparr>mutate_objectMode = True, mutate_tableName = ''t'',
                    mutate_entries = [Entry 5, Entry 6]\<rparr>),
                call_returned = Returns_emitter\<rparr>"
  have h1: "mutate (\<lambda>h v. Inr v) ''t'' ?h (Array [Entry 5, Entry 6]) False = Inr ?call"
    by (simp add: mutate_def Let_def)
  show ?thesis
    using h1
      mutate_emitter_mode
        [OF h1, where 'err = string and decorateStatus = "\<lambda>s. s" and data_entries = "[]"
           and st = "\<lparr>emitted = [], pushed = []\<rparr>" and err = "''boom''"
           and msgs = "[[\<lparr>index = 1, status = \<lparr>code = 3, message = ''bad''\<rparr>\<rparr>],
                        [\<lparr>index = 0, status = \<lparr>code = 0, message = ''ok''\<rparr>\<rparr>]]"]
    by (simp add: js_index_def)
qed

section \<open>getRows: delivery\<close>




end
